theory Spec2Isabelle
  imports Main "HOL-Library.Sublist"
begin

section \<open>The brand mention checker: \<^verbatim>\<open>src/App.tsx\<close>\<close>

text \<open>
  The component \<^verbatim>\<open>App\<close> keeps five state variables (the draft prompt and brand,
  the result log, the in-flight flag and the error banner) and has two handlers,
  \<^verbatim>\<open>handleSubmit\<close> and \<^verbatim>\<open>downloadCSV\<close>. Both are embedded here as
  functions on an explicit state. What the browser decides (the outcome of
  \<^verbatim>\<open>fetch\<close> and of \<^verbatim>\<open>response.json()\<close>) is an argument of the handler;
  what the handler does to the outside world (the request, an alert, a file) is a list of
  effects it returns. A thrown exception is the left injection of a sum.
\<close>

subsection \<open>JavaScript values\<close>

text \<open>
  \<^verbatim>\<open>response.json()\<close> has type \<^verbatim>\<open>any\<close>: the fields the handler copies
  can hold any value JSON can describe, or \<^verbatim>\<open>undefined\<close> when they are missing.
  A character is a UTF-16 code unit below 256. \<open>JNum n\<close> is the number whose value is
  the integer \<open>n\<close>; fractional numbers are outside the model. \<open>JObj kvs\<close> is the
  object whose own properties are \<open>map_of kvs\<close>.
\<close>

datatype js_error = TypeError | SyntaxError | FetchRejected

datatype jsval =
    JUndefined
  | JNull
  | JBool bool
  | JNum int
  | JStr string
  | JArr "jsval list"
  | JObj "(string \<times> jsval) list"

text \<open>Truthiness, as \<^verbatim>\<open>if (v)\<close>, \<^verbatim>\<open>v ? a : b\<close> and \<^verbatim>\<open>v || w\<close> test it.\<close>

fun truthy :: "jsval \<Rightarrow> bool" where
  "truthy JUndefined = False"
| "truthy JNull = False"
| "truthy (JBool b) = b"
| "truthy (JNum n) = (n \<noteq> 0)"
| "truthy (JStr s) = (s \<noteq> [])"
| "truthy (JArr xs) = True"
| "truthy (JObj kvs) = True"

definition js_or :: "jsval \<Rightarrow> jsval \<Rightarrow> jsval" where
  "js_or a b = (if truthy a then a else b)"

text \<open>
  Reading a property of \<^verbatim>\<open>null\<close> or \<^verbatim>\<open>undefined\<close> throws a TypeError.
  Reading one of any other value gives the own property of an object and
  \<^verbatim>\<open>undefined\<close> otherwise: the six names the handler reads (\<^verbatim>\<open>error\<close>,
  \<^verbatim>\<open>prompt\<close>, \<^verbatim>\<open>brand\<close>, \<^verbatim>\<open>mentioned\<close>, \<^verbatim>\<open>position\<close>,
  \<^verbatim>\<open>raw\<close>) are on no prototype.
\<close>

fun nullish :: "jsval \<Rightarrow> bool" where
  "nullish JUndefined = True"
| "nullish JNull = True"
| "nullish v = False"

fun field :: "jsval \<Rightarrow> string \<Rightarrow> jsval" where
  "field (JObj kvs) k = (case map_of kvs k of None \<Rightarrow> JUndefined | Some v \<Rightarrow> v)"
| "field v k = JUndefined"

text \<open>Sequencing of computations that may throw.\<close>

fun and_then :: "js_error + 'a \<Rightarrow> ('a \<Rightarrow> js_error + 'b) \<Rightarrow> js_error + 'b" where
  "and_then (Inl e) f = Inl e"
| "and_then (Inr x) f = f x"

subsection \<open>Strings\<close>

text \<open>
  \<^verbatim>\<open>String.prototype.trim\<close> removes white space and line terminators from both
  ends; below 256 these are the code units 9 to 13, 32 and 160.
\<close>

definition is_white_space :: "char \<Rightarrow> bool" where
  "is_white_space c = ((of_char c :: nat) \<in> set [9, 10, 11, 12, 13, 32, 160])"

definition trim :: "string \<Rightarrow> string" where
  "trim s = rev (dropWhile is_white_space (rev (dropWhile is_white_space s)))"

text \<open>\<^verbatim>\<open>xs.join(sep)\<close> on an array of strings.\<close>

fun join :: "string \<Rightarrow> string list \<Rightarrow> string" where
  "join sep [] = []"
| "join sep [x] = x"
| "join sep (x # y # ys) = x @ sep @ join sep (y # ys)"

definition dquote :: char where
  "dquote = CHR 0x22"

text \<open>\<^verbatim>\<open>s.replace(/"/g, '""')\<close>: every double quote is replaced by two.\<close>

fun replace_dquotes :: "string \<Rightarrow> string" where
  "replace_dquotes [] = []"
| "replace_dquotes (c # cs) =
     (if c = dquote then dquote # dquote # replace_dquotes cs else c # replace_dquotes cs)"

text \<open>
  \<^verbatim>\<open>Number.prototype.toString\<close> on an integer: its decimal digits, with a minus
  sign below zero. The text is the integer's own for the safe integers (magnitude below
  \<open>2 ^ 53\<close>); beyond them a double prints its shortest digits, which need not be the
  integer's.
\<close>

definition digit_char :: "nat \<Rightarrow> char" where
  "digit_char d = char_of (48 + d)"

function digits :: "nat \<Rightarrow> string" where
  "digits n = (if n < 10 then [digit_char n] else digits (n div 10) @ [digit_char (n mod 10)])"
  by pat_completeness auto
termination
  by (relation "measure (\<lambda>n. n)") auto

declare digits.simps [simp del]

definition number_toString :: "int \<Rightarrow> string" where
  "number_toString n = (if n < 0 then CHR ''-'' # digits (nat (- n)) else digits (nat n))"

definition safe_integer :: "int \<Rightarrow> bool" where
  "safe_integer n = (\<bar>n\<bar> \<le> 2 ^ 53 - 1)"

text \<open>
  The abstract operation ToString, which \<^verbatim>\<open>Array.prototype.join\<close> applies to the
  elements of an array (\<^verbatim>\<open>null\<close> and \<^verbatim>\<open>undefined\<close> elements give the empty
  string). An object parsed from JSON has no callable property of its own: with an own
  property \<^verbatim>\<open>toString\<close> the conversion throws, without one it is
  \<^verbatim>\<open>Object.prototype.toString\<close>.
\<close>

fun ToString :: "jsval \<Rightarrow> js_error + string"
  and join_elements :: "jsval list \<Rightarrow> js_error + string"
  and element_text :: "jsval \<Rightarrow> js_error + string" where
  "ToString JUndefined = Inr ''undefined''"
| "ToString JNull = Inr ''null''"
| "ToString (JBool b) = Inr (if b then ''true'' else ''false'')"
| "ToString (JNum n) = Inr (number_toString n)"
| "ToString (JStr s) = Inr s"
| "ToString (JArr xs) = join_elements xs"
| "ToString (JObj kvs) =
     (if map_of kvs ''toString'' = None then Inr ''[object Object]'' else Inl TypeError)"
| "join_elements [] = Inr []"
| "join_elements [x] = element_text x"
| "join_elements (x # y # ys) =
     and_then (element_text x) (\<lambda>a.
     and_then (join_elements (y # ys)) (\<lambda>b. Inr (a @ '','' @ b)))"
| "element_text x = (if nullish x then Inr [] else ToString x)"

text \<open>The method call \<^verbatim>\<open>v.toString()\<close>.\<close>

definition call_toString :: "jsval \<Rightarrow> js_error + string" where
  "call_toString v = (if nullish v then Inl TypeError else ToString v)"

text \<open>
  The method call \<^verbatim>\<open>v.replace(/"/g, '""')\<close>: only a string has a callable
  \<^verbatim>\<open>replace\<close>.
\<close>

fun call_replace :: "jsval \<Rightarrow> js_error + string" where
  "call_replace (JStr s) = Inr (replace_dquotes s)"
| "call_replace v = Inl TypeError"

subsection \<open>State and effects\<close>

text \<open>
  A record of the log, as the handler builds it: the \<^verbatim>\<open>Result\<close> interface
  declares the types of the fields, but nothing checks them at run time.
\<close>

record Result =
  prompt :: jsval
  brand :: jsval
  mentioned :: jsval
  position :: jsval
  raw :: jsval
  error :: jsval

text \<open>The five \<^verbatim>\<open>useState\<close> variables of the component.\<close>

record app_state =
  prompt_st :: string
  brand_st :: string
  results :: "Result list"
  loading :: bool
  error_st :: jsval

definition initial_state :: app_state where
  "initial_state =
     \<lparr>prompt_st = [], brand_st = [], results = [], loading = False, error_st = JNull\<rparr>"

text \<open>
  What the browser answers to the request: \<^verbatim>\<open>fetch\<close> rejects, or it resolves with
  a response of some status whose body parses as JSON (\<open>Some\<close>) or does not.
\<close>

record response =
  status :: nat
  json :: "jsval option"

datatype fetch_outcome = Rejects | Resolves response

datatype effect =
    Fetch string string string
  | ConsoleError js_error
  | Alert string
  | Download string string string
  | Uncaught js_error

fun is_fetch :: "effect \<Rightarrow> bool" where
  "is_fetch (Fetch url p b) = True"
| "is_fetch e = False"

subsection \<open>\<^verbatim>\<open>handleSubmit\<close>\<close>

definition API_URL :: "string option \<Rightarrow> string" where
  "API_URL env =
     (case env of
        None \<Rightarrow> ''http://localhost:4000''
      | Some u \<Rightarrow> if u = [] then ''http://localhost:4000'' else u)"

definition validation_message :: string where
  "validation_message = ''Please fill in both prompt and brand name''"

definition api_error_message :: string where
  "api_error_message = ''API Error: Service temporarily unavailable''"

definition connect_message :: string where
  "connect_message = ''Failed to connect to backend. Please check if the server is running.''"

text \<open>The two awaits of the \<^verbatim>\<open>try\<close> block: the value of \<^verbatim>\<open>data\<close>, or what is thrown.\<close>

fun await_data :: "fetch_outcome \<Rightarrow> js_error + jsval" where
  "await_data Rejects = Inl FetchRejected"
| "await_data (Resolves r) = (case json r of None \<Rightarrow> Inl SyntaxError | Some data \<Rightarrow> Inr data)"

text \<open>The object literal that \<^verbatim>\<open>setResults\<close> appends.\<close>

definition new_result :: "jsval \<Rightarrow> Result" where
  "new_result data =
     \<lparr>prompt = field data ''prompt'',
      brand = field data ''brand'',
      mentioned = field data ''mentioned'',
      position = field data ''position'',
      raw = field data ''raw'',
      error = js_or (field data ''error'')
                (if field data ''raw'' = JStr ''API_ERROR'' then JStr api_error_message
                 else JUndefined)\<rparr>"

text \<open>
  The rest of the \<^verbatim>\<open>try\<close> block, from \<^verbatim>\<open>if (data.error)\<close> on. The first
  property read throws when \<^verbatim>\<open>data\<close> is \<^verbatim>\<open>null\<close>, before any state is set; no
  later statement can throw.
\<close>

definition on_data :: "app_state \<Rightarrow> jsval \<Rightarrow> js_error + app_state" where
  "on_data s data =
     (if nullish data then Inl TypeError
      else if truthy (field data ''error'') then
        Inr (s\<lparr>error_st := field data ''error'', loading := False\<rparr>)
      else
        let s1 = s\<lparr>results := results s @ [new_result data]\<rparr>;
            s2 = (if truthy (js_or (field data ''error'')
                                   (JBool (field data ''raw'' = JStr ''API_ERROR'')))
                  then s1\<lparr>error_st := js_or (field data ''error'') (JStr api_error_message)\<rparr>
                  else s1)
        in Inr (s2\<lparr>prompt_st := [], brand_st := []\<rparr>))"

text \<open>
  The handler: the validation with its early return, the two state updates before the
  request, the \<^verbatim>\<open>try\<close> block, the \<^verbatim>\<open>catch\<close> and the \<^verbatim>\<open>finally\<close>.
\<close>

definition handleSubmit ::
  "string option \<Rightarrow> app_state \<Rightarrow> fetch_outcome \<Rightarrow> app_state \<times> effect list" where
  "handleSubmit env s outcome =
     (if trim (prompt_st s) = [] \<or> trim (brand_st s) = [] then
        (s\<lparr>error_st := JStr validation_message\<rparr>, [])
      else
        let s0 = s\<lparr>loading := True, error_st := JNull\<rparr>;
            request = Fetch (API_URL env @ ''/api/check'') (prompt_st s) (brand_st s)
        in case and_then (await_data outcome) (on_data s0) of
             Inr s1 \<Rightarrow> (s1\<lparr>loading := False\<rparr>, [request])
           | Inl e \<Rightarrow>
               (s0\<lparr>error_st := JStr connect_message, loading := False\<rparr>,
                [request, ConsoleError e]))"

subsection \<open>\<^verbatim>\<open>downloadCSV\<close>\<close>

definition csv_row :: "Result \<Rightarrow> js_error + string" where
  "csv_row result =
     and_then (call_replace (prompt result)) (\<lambda>p.
     and_then (call_replace (brand result)) (\<lambda>b.
     and_then (call_toString (position result)) (\<lambda>n.
       Inr (join '',''
         [dquote # p @ [dquote], dquote # b @ [dquote],
          if truthy (mentioned result) then ''Yes'' else ''No'', n]))))"

text \<open>\<^verbatim>\<open>results.map\<close> with a callback that may throw: the first throw ends it.\<close>

fun map_rows :: "Result list \<Rightarrow> js_error + string list" where
  "map_rows [] = Inr []"
| "map_rows (r # rs) =
     and_then (csv_row r) (\<lambda>row. and_then (map_rows rs) (\<lambda>rows. Inr (row # rows)))"

definition downloadCSV :: "Result list \<Rightarrow> js_error + effect list" where
  "downloadCSV log =
     (if length log = 0 then Inr [Alert ''No results to download'']
      else
        and_then (map_rows log) (\<lambda>rows.
          Inr [Download ''brand-mention-results.csv'' ''text/csv;charset=utf-8;''
                 (join [CHR 0x0A]
                    (join '','' [''Prompt'', ''Brand'', ''Mentioned'', ''Position''] # rows))]))"

subsection \<open>The component as a transition system\<close>

datatype event =
    SetPrompt string
  | SetBrand string
  | Submit fetch_outcome
  | DownloadCSV

fun step :: "string option \<Rightarrow> app_state \<Rightarrow> event \<Rightarrow> app_state \<times> effect list" where
  "step env s (SetPrompt t) = (s\<lparr>prompt_st := t\<rparr>, [])"
| "step env s (SetBrand t) = (s\<lparr>brand_st := t\<rparr>, [])"
| "step env s (Submit outcome) = handleSubmit env s outcome"
| "step env s DownloadCSV =
     (s, case downloadCSV (results s) of Inr es \<Rightarrow> es | Inl e \<Rightarrow> [Uncaught e])"

fun run :: "string option \<Rightarrow> app_state \<Rightarrow> event list \<Rightarrow> app_state" where
  "run env s [] = s"
| "run env s (ev # evs) = run env (fst (step env s ev)) evs"

subsection \<open>The typed log and the export as specified\<close>

text \<open>
  The records the \<^verbatim>\<open>Result\<close> interface declares: two strings, a boolean, a
  number and two optional strings.
\<close>

record ResultRecord =
  rec_prompt :: string
  rec_brand :: string
  rec_mentioned :: bool
  rec_position :: int
  rec_raw :: "string option"
  rec_error :: "string option"

text \<open>The run-time types the export relies on, and the typed records as values.\<close>

fun is_string :: "jsval \<Rightarrow> bool" where
  "is_string (JStr s) = True"
| "is_string v = False"

fun is_number :: "jsval \<Rightarrow> bool" where
  "is_number (JNum n) = True"
| "is_number v = False"

definition optional :: "string option \<Rightarrow> jsval" where
  "optional t = (case t of None \<Rightarrow> JUndefined | Some s \<Rightarrow> JStr s)"

definition to_Result :: "ResultRecord \<Rightarrow> Result" where
  "to_Result r =
     \<lparr>prompt = JStr (rec_prompt r), brand = JStr (rec_brand r),
      mentioned = JBool (rec_mentioned r), position = JNum (rec_position r),
      raw = optional (rec_raw r), error = optional (rec_error r)\<rparr>"

text \<open>
  The CSV document of the export contract: a header row, then one row per record in log
  order; prompt and brand between double quotes with every inner double quote doubled,
  \<open>Yes\<close> or \<open>No\<close>, and the position in decimal.
\<close>

definition quoted :: "string \<Rightarrow> string" where
  "quoted s =
     dquote # concat (map (\<lambda>c. if c = dquote then [dquote, dquote] else [c]) s) @ [dquote]"

definition export_row :: "ResultRecord \<Rightarrow> string" where
  "export_row r =
     quoted (rec_prompt r) @ '','' @ quoted (rec_brand r) @ '','' @
     (if rec_mentioned r then ''Yes'' else ''No'') @ '','' @ number_toString (rec_position r)"

definition exportCSV :: "ResultRecord list \<Rightarrow> string" where
  "exportCSV log =
     ''Prompt,Brand,Mentioned,Position'' @ concat (map (\<lambda>r. CHR 0x0A # export_row r) log)"

text \<open>Reading decimal notation back, to say what \<open>number_toString\<close> writes.\<close>

definition digit_value :: "char \<Rightarrow> int" where
  "digit_value c = int (of_char c) - 48"

definition decimal_nat :: "string \<Rightarrow> int" where
  "decimal_nat s = foldl (\<lambda>a c. 10 * a + digit_value c) 0 s"

definition decimal_value :: "string \<Rightarrow> int" where
  "decimal_value s =
     (case s of
        [] \<Rightarrow> 0
      | c # cs \<Rightarrow> if c = CHR ''-'' then - decimal_nat cs else decimal_nat s)"

subsection \<open>Inputs of the scenarios\<close>

definition scenario_state :: app_state where
  "scenario_state =
     \<lparr>prompt_st = ''Best CRM?'', brand_st = ''Acme'', results = [], loading = False,
      error_st = JNull\<rparr>"

definition blank_brand_state :: app_state where
  "blank_brand_state =
     \<lparr>prompt_st = ''Best CRM?'', brand_st = [CHR '' '', CHR 0x09], results = [],
      loading = False, error_st = JNull\<rparr>"

text \<open>A typed log: the record of scenario C with a quoted brand, and two more.\<close>

definition scenario_log :: "ResultRecord list" where
  "scenario_log =
     [\<lparr>rec_prompt = ''p'', rec_brand = [CHR ''A'', CHR ''c'', CHR 0x22, CHR ''m'', CHR ''e''],
       rec_mentioned = False, rec_position = 0, rec_raw = Some ''API_ERROR'',
       rec_error = Some ''API Error: Service temporarily unavailable''\<rparr>,
      \<lparr>rec_prompt = ''Best CRM?'', rec_brand = ''Acme'', rec_mentioned = True,
       rec_position = 12, rec_raw = None, rec_error = None\<rparr>,
      \<lparr>rec_prompt = ''q'', rec_brand = ''b'', rec_mentioned = False,
       rec_position = - 1, rec_raw = None, rec_error = None\<rparr>]"

text \<open>A session: every kind of outcome, the two edits of the draft and two exports.\<close>

definition session :: "event list" where
  "session =
     [Submit (Resolves \<lparr>status = 200, json = Some (JObj
        [(''prompt'', JStr ''Best CRM?''), (''brand'', JStr ''Acme''),
         (''mentioned'', JBool True), (''position'', JNum 3)])\<rparr>),
      DownloadCSV,
      Submit Rejects,
      SetPrompt ''p'',
      SetBrand ''b'',
      Submit (Resolves \<lparr>status = 200, json = Some (JObj [(''error'', JStr ''rate limited'')])\<rparr>),
      Submit (Resolves \<lparr>status = 200, json = None\<rparr>),
      Submit (Resolves \<lparr>status = 200, json = Some (JObj
        [(''prompt'', JStr ''p''), (''brand'', JStr ''b''), (''mentioned'', JBool False),
         (''position'', JNum 0), (''raw'', JStr ''API_ERROR'')])\<rparr>),
      DownloadCSV]"

section \<open>Properties\<close>

subsection \<open>Validation\<close>

lemma trim_eq_Nil: "trim s = [] \<longleftrightarrow> (\<forall>c \<in> set s. is_white_space c)"
proof
  assume "trim s = []"
  then have all: "\<forall>x \<in> set (dropWhile is_white_space s). is_white_space x"
    by (simp add: trim_def)
  have "dropWhile is_white_space s = []"
  proof (rule ccontr)
    assume ne: "dropWhile is_white_space s \<noteq> []"
    then have "\<not> is_white_space (hd (dropWhile is_white_space s))"
      by (rule hd_dropWhile)
    moreover from ne have "hd (dropWhile is_white_space s) \<in> set (dropWhile is_white_space s)"
      by simp
    ultimately show False using all by blast
  qed
  then show "\<forall>c \<in> set s. is_white_space c" by simp
next
  assume "\<forall>c \<in> set s. is_white_space c"
  then show "trim s = []" by (auto simp: trim_def dest: set_dropWhileD)
qed

lemma scenario_state_valid:
  "trim (prompt_st scenario_state) \<noteq> [] \<and> trim (brand_st scenario_state) \<noteq> []"
  by (simp add: scenario_state_def trim_eq_Nil is_white_space_def)

lemma blank_brand_state_invalid: "trim (brand_st blank_brand_state) = []"
  by (simp add: blank_brand_state_def trim_eq_Nil is_white_space_def)

text \<open>
  C2. With both trimmed fields non-empty the handler issues exactly one request. With
  either of them empty it issues none and has no other effect: the log and the draft are
  as before and the banner is the one combined notice.
\<close>

theorem submit_validation:
  "(trim (prompt_st s) \<noteq> [] \<and> trim (brand_st s) \<noteq> [] \<longrightarrow>
      length (filter is_fetch (snd (handleSubmit env s outcome))) = 1)
   \<and> (trim (prompt_st s) = [] \<or> trim (brand_st s) = [] \<longrightarrow>
      snd (handleSubmit env s outcome) = []
      \<and> results (fst (handleSubmit env s outcome)) = results s
      \<and> error_st (fst (handleSubmit env s outcome))
          = JStr ''Please fill in both prompt and brand name''
      \<and> prompt_st (fst (handleSubmit env s outcome)) = prompt_st s
      \<and> brand_st (fst (handleSubmit env s outcome)) = brand_st s)"
proof (intro conjI impI)
  assume "trim (prompt_st s) \<noteq> [] \<and> trim (brand_st s) \<noteq> []"
  then show "length (filter is_fetch (snd (handleSubmit env s outcome))) = 1"
    by (simp add: handleSubmit_def Let_def split: sum.split)
next
  assume "trim (prompt_st s) = [] \<or> trim (brand_st s) = []"
  then have eq: "handleSubmit env s outcome = (s\<lparr>error_st := JStr validation_message\<rparr>, [])"
    by (simp add: handleSubmit_def)
  show "snd (handleSubmit env s outcome) = []" by (simp add: eq)
  show "results (fst (handleSubmit env s outcome)) = results s" by (simp add: eq)
  show "error_st (fst (handleSubmit env s outcome))
          = JStr ''Please fill in both prompt and brand name''"
    by (simp add: eq validation_message_def)
  show "prompt_st (fst (handleSubmit env s outcome)) = prompt_st s" by (simp add: eq)
  show "brand_st (fst (handleSubmit env s outcome)) = brand_st s" by (simp add: eq)
qed

text \<open>A valid draft whose request is rejected, and a draft whose brand is a space and a tab.\<close>

theorem submit_validation_witness:
  "length (filter is_fetch (snd (handleSubmit None scenario_state Rejects))) = 1
   \<and> snd (handleSubmit None blank_brand_state Rejects) = []
   \<and> results (fst (handleSubmit None blank_brand_state Rejects)) = []
   \<and> error_st (fst (handleSubmit None blank_brand_state Rejects))
       = JStr ''Please fill in both prompt and brand name''
   \<and> prompt_st (fst (handleSubmit None blank_brand_state Rejects)) = ''Best CRM?''
   \<and> brand_st (fst (handleSubmit None blank_brand_state Rejects)) = [CHR '' '', CHR 0x09]"
  using submit_validation [of scenario_state None Rejects]
    submit_validation [of blank_brand_state None Rejects]
    scenario_state_valid blank_brand_state_invalid
  by (simp add: blank_brand_state_def)

subsection \<open>The paths of \<^verbatim>\<open>handleSubmit\<close>\<close>

lemma handleSubmit_thrown:
  assumes "trim (prompt_st s) \<noteq> []" and "trim (brand_st s) \<noteq> []"
    and "and_then (await_data outcome) (on_data (s\<lparr>loading := True, error_st := JNull\<rparr>)) = Inl e"
  shows "handleSubmit env s outcome =
           (s\<lparr>error_st := JStr connect_message, loading := False\<rparr>,
            [Fetch (API_URL env @ ''/api/check'') (prompt_st s) (brand_st s), ConsoleError e])"
  using assms by (simp add: handleSubmit_def Let_def)

lemma handleSubmit_data:
  assumes "trim (prompt_st s) \<noteq> []" and "trim (brand_st s) \<noteq> []"
    and "json r = Some data"
    and "on_data (s\<lparr>loading := True, error_st := JNull\<rparr>) data = Inr s1"
  shows "handleSubmit env s (Resolves r) =
           (s1\<lparr>loading := False\<rparr>,
            [Fetch (API_URL env @ ''/api/check'') (prompt_st s) (brand_st s)])"
  using assms by (simp add: handleSubmit_def Let_def)

lemma on_data_error:
  assumes "truthy (field data ''error'')"
  shows "on_data s data = Inr (s\<lparr>error_st := field data ''error'', loading := False\<rparr>)"
proof -
  from assms have "\<not> nullish data" by (cases data) auto
  with assms show ?thesis by (simp add: on_data_def)
qed

lemma on_data_append:
  assumes "\<not> nullish data" and "\<not> truthy (field data ''error'')"
  shows "on_data s data =
     Inr (s\<lparr>results := results s @ [new_result data],
             error_st := (if field data ''raw'' = JStr ''API_ERROR''
                          then JStr api_error_message else error_st s),
             prompt_st := [], brand_st := []\<rparr>)"
  using assms by (simp add: on_data_def Let_def js_or_def)

subsection \<open>Backend errors\<close>

text \<open>
  C1, as the code has it. When the request was sent and the parsed body carries a truthy
  \<^verbatim>\<open>error\<close> field, the handler returns before the statements that clear the form:
  the draft prompt and brand keep their values from before the submission.
\<close>

theorem backend_error_keeps_draft:
  assumes "trim (prompt_st s) \<noteq> []" and "trim (brand_st s) \<noteq> []"
    and "json r = Some data" and "truthy (field data ''error'')"
  shows "prompt_st (fst (handleSubmit env s (Resolves r))) = prompt_st s
       \<and> brand_st (fst (handleSubmit env s (Resolves r))) = brand_st s"
  using assms by (simp add: handleSubmit_data [OF _ _ _ on_data_error])

text \<open>Scenario B: the backend answers \<^verbatim>\<open>{error: "rate limited"}\<close>.\<close>

theorem backend_error_keeps_draft_witness:
  "prompt_st (fst (handleSubmit None scenario_state
      (Resolves \<lparr>status = 200, json = Some (JObj [(''error'', JStr ''rate limited'')])\<rparr>)))
     = ''Best CRM?''
   \<and> brand_st (fst (handleSubmit None scenario_state
      (Resolves \<lparr>status = 200, json = Some (JObj [(''error'', JStr ''rate limited'')])\<rparr>)))
     = ''Acme''"
  using backend_error_keeps_draft [of scenario_state
      "\<lparr>status = 200, json = Some (JObj [(''error'', JStr ''rate limited'')])\<rparr>"
      "JObj [(''error'', JStr ''rate limited'')]" None]
    scenario_state_valid
  by (simp add: scenario_state_def)

text \<open>
  C1 as stated fails in scenario B: after the attempt the draft is not empty.
\<close>

theorem backend_error_clears_draft_counterexample:
  "\<not> (prompt_st (fst (handleSubmit None scenario_state
          (Resolves \<lparr>status = 200, json = Some (JObj [(''error'', JStr ''rate limited'')])\<rparr>)))
        = []
      \<and> brand_st (fst (handleSubmit None scenario_state
          (Resolves \<lparr>status = 200, json = Some (JObj [(''error'', JStr ''rate limited'')])\<rparr>)))
        = [])"
  by (simp add: handleSubmit_def scenario_state_def trim_eq_Nil is_white_space_def
      on_data_def Let_def)

text \<open>
  C4. A truthy \<^verbatim>\<open>error\<close> field decides the outcome whatever \<^verbatim>\<open>raw\<close> holds, the
  sentinel included: no record is appended and the banner is that \<^verbatim>\<open>error\<close> value.
\<close>

theorem error_field_precedence:
  assumes "trim (prompt_st s) \<noteq> []" and "trim (brand_st s) \<noteq> []"
    and "json r = Some data" and "truthy (field data ''error'')"
  shows "results (fst (handleSubmit env s (Resolves r))) = results s
       \<and> error_st (fst (handleSubmit env s (Resolves r))) = field data ''error''"
  using assms by (simp add: handleSubmit_data [OF _ _ _ on_data_error])

text \<open>A body that sets both \<^verbatim>\<open>error\<close> and the sentinel.\<close>

theorem error_field_precedence_witness:
  "results (fst (handleSubmit None scenario_state
      (Resolves \<lparr>status = 200, json = Some (JObj
         [(''error'', JStr ''quota exceeded''), (''raw'', JStr ''API_ERROR'')])\<rparr>))) = []
   \<and> error_st (fst (handleSubmit None scenario_state
      (Resolves \<lparr>status = 200, json = Some (JObj
         [(''error'', JStr ''quota exceeded''), (''raw'', JStr ''API_ERROR'')])\<rparr>)))
     = JStr ''quota exceeded''"
  using error_field_precedence [of scenario_state
      "\<lparr>status = 200, json = Some (JObj
         [(''error'', JStr ''quota exceeded''), (''raw'', JStr ''API_ERROR'')])\<rparr>"
      "JObj [(''error'', JStr ''quota exceeded''), (''raw'', JStr ''API_ERROR'')]" None]
    scenario_state_valid
  by (simp add: scenario_state_def)

subsection \<open>Responses that are recorded\<close>

lemma raw_sentinel_not_nullish:
  "field data ''raw'' = JStr ''API_ERROR'' \<Longrightarrow> \<not> nullish data"
  by (cases data) auto

text \<open>
  C5. With no truthy \<^verbatim>\<open>error\<close> and \<^verbatim>\<open>raw\<close> equal to the sentinel, one record is
  appended, its \<^verbatim>\<open>error\<close> is the fixed fallback message, and the banner is that
  message too.
\<close>

theorem mention_error_recorded:
  assumes "trim (prompt_st s) \<noteq> []" and "trim (brand_st s) \<noteq> []"
    and "json r = Some data"
    and "\<not> truthy (field data ''error'')" and "field data ''raw'' = JStr ''API_ERROR''"
  shows "results (fst (handleSubmit env s (Resolves r))) = results s @ [new_result data]
       \<and> error (new_result data) = JStr ''API Error: Service temporarily unavailable''
       \<and> error_st (fst (handleSubmit env s (Resolves r)))
           = JStr ''API Error: Service temporarily unavailable''"
proof -
  from assms(5) have nn: "\<not> nullish data" by (rule raw_sentinel_not_nullish)
  have "results (fst (handleSubmit env s (Resolves r))) = results s @ [new_result data]"
    using assms by (simp add: handleSubmit_data [OF _ _ _ on_data_append [OF nn]])
  moreover have "error (new_result data) = JStr ''API Error: Service temporarily unavailable''"
    using assms by (simp add: new_result_def js_or_def api_error_message_def)
  moreover have "error_st (fst (handleSubmit env s (Resolves r)))
               = JStr ''API Error: Service temporarily unavailable''"
    using assms
    by (simp add: handleSubmit_data [OF _ _ _ on_data_append [OF nn]] api_error_message_def)
  ultimately show ?thesis by blast
qed

text \<open>Scenario C.\<close>

theorem mention_error_recorded_witness:
  "results (fst (handleSubmit None scenario_state
      (Resolves \<lparr>status = 200, json = Some (JObj
         [(''prompt'', JStr ''p''), (''brand'', JStr ''b''), (''mentioned'', JBool False),
          (''position'', JNum 0), (''raw'', JStr ''API_ERROR'')])\<rparr>)))
     = [\<lparr>prompt = JStr ''p'', brand = JStr ''b'', mentioned = JBool False,
         position = JNum 0, raw = JStr ''API_ERROR'',
         error = JStr ''API Error: Service temporarily unavailable''\<rparr>]
   \<and> error_st (fst (handleSubmit None scenario_state
      (Resolves \<lparr>status = 200, json = Some (JObj
         [(''prompt'', JStr ''p''), (''brand'', JStr ''b''), (''mentioned'', JBool False),
          (''position'', JNum 0), (''raw'', JStr ''API_ERROR'')])\<rparr>)))
     = JStr ''API Error: Service temporarily unavailable''"
  using mention_error_recorded [of scenario_state
      "\<lparr>status = 200, json = Some (JObj
         [(''prompt'', JStr ''p''), (''brand'', JStr ''b''), (''mentioned'', JBool False),
          (''position'', JNum 0), (''raw'', JStr ''API_ERROR'')])\<rparr>"
      "JObj [(''prompt'', JStr ''p''), (''brand'', JStr ''b''), (''mentioned'', JBool False),
          (''position'', JNum 0), (''raw'', JStr ''API_ERROR'')]" None]
    scenario_state_valid
  by (simp add: scenario_state_def new_result_def js_or_def)

text \<open>
  C3, as the code has it. A body other than \<^verbatim>\<open>null\<close>, with no truthy
  \<^verbatim>\<open>error\<close> and with \<^verbatim>\<open>raw\<close> other than the sentinel: one record is
  appended, its \<^verbatim>\<open>error\<close> is \<^verbatim>\<open>undefined\<close>, its prompt and brand are those of the
  body whatever the draft held, the banner is cleared and so is the draft.
\<close>

theorem success_recorded:
  assumes "trim (prompt_st s) \<noteq> []" and "trim (brand_st s) \<noteq> []"
    and "json r = Some data" and "\<not> nullish data"
    and "\<not> truthy (field data ''error'')" and "field data ''raw'' \<noteq> JStr ''API_ERROR''"
  shows "results (fst (handleSubmit env s (Resolves r))) = results s @ [new_result data]
       \<and> error (new_result data) = JUndefined
       \<and> prompt (new_result data) = field data ''prompt''
       \<and> brand (new_result data) = field data ''brand''
       \<and> error_st (fst (handleSubmit env s (Resolves r))) = JNull
       \<and> prompt_st (fst (handleSubmit env s (Resolves r))) = []
       \<and> brand_st (fst (handleSubmit env s (Resolves r))) = []"
proof -
  have step: "fst (handleSubmit env s (Resolves r)) =
      s\<lparr>results := results s @ [new_result data], error_st := JNull,
        prompt_st := [], brand_st := [], loading := False\<rparr>"
    using assms by (simp add: handleSubmit_data [OF _ _ _ on_data_append])
  have "error (new_result data) = JUndefined"
    using assms by (simp add: new_result_def js_or_def)
  moreover have "prompt (new_result data) = field data ''prompt''"
    and "brand (new_result data) = field data ''brand''"
    by (simp_all add: new_result_def)
  ultimately show ?thesis by (simp add: step)
qed

text \<open>
  Scenario A, with a backend that lower-cases the prompt: the record holds the prompt of
  the body, not the one that was sent.
\<close>

theorem success_recorded_witness:
  "results (fst (handleSubmit None scenario_state
      (Resolves \<lparr>status = 200, json = Some (JObj
         [(''prompt'', JStr ''best crm?''), (''brand'', JStr ''Acme''),
          (''mentioned'', JBool True), (''position'', JNum 3)])\<rparr>)))
     = [\<lparr>prompt = JStr ''best crm?'', brand = JStr ''Acme'', mentioned = JBool True,
         position = JNum 3, raw = JUndefined, error = JUndefined\<rparr>]
   \<and> error_st (fst (handleSubmit None scenario_state
      (Resolves \<lparr>status = 200, json = Some (JObj
         [(''prompt'', JStr ''best crm?''), (''brand'', JStr ''Acme''),
          (''mentioned'', JBool True), (''position'', JNum 3)])\<rparr>))) = JNull
   \<and> prompt_st (fst (handleSubmit None scenario_state
      (Resolves \<lparr>status = 200, json = Some (JObj
         [(''prompt'', JStr ''best crm?''), (''brand'', JStr ''Acme''),
          (''mentioned'', JBool True), (''position'', JNum 3)])\<rparr>))) = []
   \<and> brand_st (fst (handleSubmit None scenario_state
      (Resolves \<lparr>status = 200, json = Some (JObj
         [(''prompt'', JStr ''best crm?''), (''brand'', JStr ''Acme''),
          (''mentioned'', JBool True), (''position'', JNum 3)])\<rparr>))) = []"
  using success_recorded [of scenario_state
      "\<lparr>status = 200, json = Some (JObj
         [(''prompt'', JStr ''best crm?''), (''brand'', JStr ''Acme''),
          (''mentioned'', JBool True), (''position'', JNum 3)])\<rparr>"
      "JObj [(''prompt'', JStr ''best crm?''), (''brand'', JStr ''Acme''),
          (''mentioned'', JBool True), (''position'', JNum 3)]" None]
    scenario_state_valid
  by (simp add: scenario_state_def new_result_def js_or_def)

text \<open>
  C3 as stated fails on the body \<^verbatim>\<open>null\<close>, which has no \<^verbatim>\<open>error\<close> and no
  \<^verbatim>\<open>raw\<close>: reading \<^verbatim>\<open>data.error\<close> throws, the \<^verbatim>\<open>catch\<close> block runs, and
  the log, the banner and the draft are those of a transport failure.
\<close>

theorem null_body_success_counterexample:
  "\<not> truthy (field JNull ''error'') \<and> field JNull ''raw'' \<noteq> JStr ''API_ERROR''
   \<and> results (fst (handleSubmit None scenario_state
        (Resolves \<lparr>status = 200, json = Some JNull\<rparr>))) = results scenario_state
   \<and> error_st (fst (handleSubmit None scenario_state
        (Resolves \<lparr>status = 200, json = Some JNull\<rparr>)))
       = JStr ''Failed to connect to backend. Please check if the server is running.''
   \<and> prompt_st (fst (handleSubmit None scenario_state
        (Resolves \<lparr>status = 200, json = Some JNull\<rparr>))) = ''Best CRM?''
   \<and> brand_st (fst (handleSubmit None scenario_state
        (Resolves \<lparr>status = 200, json = Some JNull\<rparr>))) = ''Acme''"
  by (simp add: scenario_state_def handleSubmit_def on_data_def connect_message_def Let_def
      trim_eq_Nil is_white_space_def)

subsection \<open>Transport failures and the status code\<close>

text \<open>
  C6. When the request was sent and \<^verbatim>\<open>fetch\<close> rejects, or the body of the response
  does not parse as JSON, no record is appended, the banner is the fixed connectivity
  message and the draft is as it was.
\<close>

theorem transport_failure:
  assumes "trim (prompt_st s) \<noteq> []" and "trim (brand_st s) \<noteq> []"
    and "outcome = Rejects \<or> (\<exists>r. outcome = Resolves r \<and> json r = None)"
  shows "results (fst (handleSubmit env s outcome)) = results s
       \<and> error_st (fst (handleSubmit env s outcome))
           = JStr ''Failed to connect to backend. Please check if the server is running.''
       \<and> prompt_st (fst (handleSubmit env s outcome)) = prompt_st s
       \<and> brand_st (fst (handleSubmit env s outcome)) = brand_st s"
proof -
  from assms(3) obtain e where
    "and_then (await_data outcome) (on_data (s\<lparr>loading := True, error_st := JNull\<rparr>)) = Inl e"
    by auto
  from handleSubmit_thrown [OF assms(1,2) this] show ?thesis
    by (simp add: connect_message_def)
qed

text \<open>Scenario D, and a response whose body is not JSON.\<close>

theorem transport_failure_witness:
  "results (fst (handleSubmit None scenario_state Rejects)) = []
   \<and> error_st (fst (handleSubmit None scenario_state Rejects))
       = JStr ''Failed to connect to backend. Please check if the server is running.''
   \<and> prompt_st (fst (handleSubmit None scenario_state Rejects)) = ''Best CRM?''
   \<and> brand_st (fst (handleSubmit None scenario_state Rejects)) = ''Acme''
   \<and> results (fst (handleSubmit None scenario_state
        (Resolves \<lparr>status = 502, json = None\<rparr>))) = []
   \<and> error_st (fst (handleSubmit None scenario_state (Resolves \<lparr>status = 502, json = None\<rparr>)))
       = JStr ''Failed to connect to backend. Please check if the server is running.''
   \<and> prompt_st (fst (handleSubmit None scenario_state
        (Resolves \<lparr>status = 502, json = None\<rparr>))) = ''Best CRM?''
   \<and> brand_st (fst (handleSubmit None scenario_state
        (Resolves \<lparr>status = 502, json = None\<rparr>))) = ''Acme''"
  using transport_failure [of scenario_state Rejects None]
    transport_failure [of scenario_state "Resolves \<lparr>status = 502, json = None\<rparr>" None]
    scenario_state_valid
  by (simp add: scenario_state_def)

text \<open>
  C9, as the code has it. The handler never reads the status: two responses with the same
  body give the same state and effects. So at any status a body other than
  \<^verbatim>\<open>null\<close> with no truthy \<^verbatim>\<open>error\<close> and no sentinel appends its record and leaves
  the banner cleared, and a body that is not JSON ends as a transport failure.
\<close>

theorem status_ignored:
  "handleSubmit env s (Resolves \<lparr>status = st, json = body\<rparr>)
     = handleSubmit env s (Resolves \<lparr>status = st', json = body\<rparr>)
   \<and> (trim (prompt_st s) \<noteq> [] \<and> trim (brand_st s) \<noteq> [] \<and> \<not> nullish data
        \<and> \<not> truthy (field data ''error'') \<and> field data ''raw'' \<noteq> JStr ''API_ERROR'' \<longrightarrow>
      results (fst (handleSubmit env s (Resolves \<lparr>status = st, json = Some data\<rparr>)))
        = results s @ [new_result data]
      \<and> error_st (fst (handleSubmit env s (Resolves \<lparr>status = st, json = Some data\<rparr>))) = JNull)
   \<and> (trim (prompt_st s) \<noteq> [] \<and> trim (brand_st s) \<noteq> [] \<longrightarrow>
      results (fst (handleSubmit env s (Resolves \<lparr>status = st, json = None\<rparr>))) = results s
      \<and> error_st (fst (handleSubmit env s (Resolves \<lparr>status = st, json = None\<rparr>)))
          = JStr ''Failed to connect to backend. Please check if the server is running.'')"
proof (intro conjI impI)
  show "handleSubmit env s (Resolves \<lparr>status = st, json = body\<rparr>)
     = handleSubmit env s (Resolves \<lparr>status = st', json = body\<rparr>)"
    by (simp add: handleSubmit_def)
next
  assume a: "trim (prompt_st s) \<noteq> [] \<and> trim (brand_st s) \<noteq> [] \<and> \<not> nullish data
        \<and> \<not> truthy (field data ''error'') \<and> field data ''raw'' \<noteq> JStr ''API_ERROR''"
  then have step: "fst (handleSubmit env s (Resolves \<lparr>status = st, json = Some data\<rparr>)) =
      s\<lparr>results := results s @ [new_result data], error_st := JNull,
        prompt_st := [], brand_st := [], loading := False\<rparr>"
    by (simp add: handleSubmit_data [OF _ _ _ on_data_append])
  show "results (fst (handleSubmit env s (Resolves \<lparr>status = st, json = Some data\<rparr>)))
        = results s @ [new_result data]"
    by (simp add: step)
  show "error_st (fst (handleSubmit env s (Resolves \<lparr>status = st, json = Some data\<rparr>))) = JNull"
    by (simp add: step)
next
  assume a: "trim (prompt_st s) \<noteq> [] \<and> trim (brand_st s) \<noteq> []"
  have "and_then (await_data (Resolves \<lparr>status = st, json = None\<rparr>))
          (on_data (s\<lparr>loading := True, error_st := JNull\<rparr>)) = Inl SyntaxError"
    by simp
  from handleSubmit_thrown [OF _ _ this] a
  have step: "fst (handleSubmit env s (Resolves \<lparr>status = st, json = None\<rparr>))
      = s\<lparr>error_st := JStr connect_message, loading := False\<rparr>"
    by simp
  show "results (fst (handleSubmit env s (Resolves \<lparr>status = st, json = None\<rparr>))) = results s"
    by (simp add: step)
  show "error_st (fst (handleSubmit env s (Resolves \<lparr>status = st, json = None\<rparr>)))
          = JStr ''Failed to connect to backend. Please check if the server is running.''"
    by (simp add: step connect_message_def)
qed

text \<open>Status 500 with the body of scenario A, and status 500 with a body that is not JSON.\<close>

theorem status_ignored_witness:
  "handleSubmit None scenario_state
      (Resolves \<lparr>status = 500, json = Some (JObj
         [(''prompt'', JStr ''Best CRM?''), (''brand'', JStr ''Acme''),
          (''mentioned'', JBool True), (''position'', JNum 3)])\<rparr>)
     = handleSubmit None scenario_state
      (Resolves \<lparr>status = 200, json = Some (JObj
         [(''prompt'', JStr ''Best CRM?''), (''brand'', JStr ''Acme''),
          (''mentioned'', JBool True), (''position'', JNum 3)])\<rparr>)
   \<and> results (fst (handleSubmit None scenario_state
      (Resolves \<lparr>status = 500, json = Some (JObj
         [(''prompt'', JStr ''Best CRM?''), (''brand'', JStr ''Acme''),
          (''mentioned'', JBool True), (''position'', JNum 3)])\<rparr>)))
     = [\<lparr>prompt = JStr ''Best CRM?'', brand = JStr ''Acme'', mentioned = JBool True,
         position = JNum 3, raw = JUndefined, error = JUndefined\<rparr>]
   \<and> error_st (fst (handleSubmit None scenario_state
      (Resolves \<lparr>status = 500, json = Some (JObj
         [(''prompt'', JStr ''Best CRM?''), (''brand'', JStr ''Acme''),
          (''mentioned'', JBool True), (''position'', JNum 3)])\<rparr>))) = JNull
   \<and> results (fst (handleSubmit None scenario_state
        (Resolves \<lparr>status = 500, json = None\<rparr>))) = []
   \<and> error_st (fst (handleSubmit None scenario_state (Resolves \<lparr>status = 500, json = None\<rparr>)))
       = JStr ''Failed to connect to backend. Please check if the server is running.''"
  using status_ignored [of None scenario_state 500
      "Some (JObj [(''prompt'', JStr ''Best CRM?''), (''brand'', JStr ''Acme''),
          (''mentioned'', JBool True), (''position'', JNum 3)])" 200
      "JObj [(''prompt'', JStr ''Best CRM?''), (''brand'', JStr ''Acme''),
          (''mentioned'', JBool True), (''position'', JNum 3)]"]
    scenario_state_valid
  by (simp add: scenario_state_def handleSubmit_def on_data_def new_result_def js_or_def
      connect_message_def Let_def)

text \<open>
  C9 as stated fails at status 500 with the body \<^verbatim>\<open>null\<close>: the body holds no
  \<^verbatim>\<open>error\<close> and no sentinel, and no record is appended.
\<close>

theorem null_body_status_counterexample:
  "\<not> truthy (field JNull ''error'') \<and> field JNull ''raw'' \<noteq> JStr ''API_ERROR''
   \<and> results (fst (handleSubmit None scenario_state
        (Resolves \<lparr>status = 500, json = Some JNull\<rparr>))) = results scenario_state
   \<and> results (fst (handleSubmit None scenario_state
        (Resolves \<lparr>status = 500, json = Some JNull\<rparr>)))
       \<noteq> results scenario_state @ [new_result JNull]"
  by (simp add: scenario_state_def handleSubmit_def on_data_def Let_def
      trim_eq_Nil is_white_space_def)

subsection \<open>The export\<close>

lemma replace_dquotes_concat:
  "replace_dquotes s = concat (map (\<lambda>c. if c = dquote then [dquote, dquote] else [c]) s)"
  by (induction s) simp_all

lemma csv_row_typed: "csv_row (to_Result r) = Inr (export_row r)"
  by (simp add: csv_row_def to_Result_def export_row_def quoted_def call_toString_def
      replace_dquotes_concat)

lemma map_rows_typed: "map_rows (map to_Result log) = Inr (map export_row log)"
  by (induction log) (simp_all add: csv_row_typed)

lemma join_lines: "join [c] (h # rows) = h @ concat (map (\<lambda>row. c # row) rows)"
  by (induction rows arbitrary: h) simp_all

lemma digit_value_digit_char: "d < 10 \<Longrightarrow> digit_value (digit_char d) = int d"
  by (simp add: digit_value_def digit_char_def)

lemma decimal_nat_snoc: "decimal_nat (s @ [c]) = 10 * decimal_nat s + digit_value c"
  by (simp add: decimal_nat_def)

lemma decimal_nat_digits: "decimal_nat (digits n) = int n"
proof (induction n rule: digits.induct)
  case (1 n)
  show ?case
  proof (cases "n < 10")
    case True
    then show ?thesis
      by (subst digits.simps) (simp add: decimal_nat_def digit_value_digit_char)
  next
    case False
    with 1 have "decimal_nat (digits (n div 10)) = int (n div 10)" by simp
    with False show ?thesis
      by (subst digits.simps) (simp add: decimal_nat_snoc digit_value_digit_char zdiv_int zmod_int)
  qed
qed

lemma digits_head: "\<exists>c cs. digits n = c # cs \<and> c \<noteq> CHR ''-''"
proof (induction n rule: digits.induct)
  case (1 n)
  show ?case
  proof (cases "n < 10")
    case True
    then have "digits n = [digit_char n]" by (subst digits.simps) simp
    moreover have "digit_char n \<noteq> CHR ''-''"
    proof
      assume "digit_char n = CHR ''-''"
      then have "digit_value (digit_char n) = digit_value (CHR ''-'')" by simp
      with True show False by (simp add: digit_value_digit_char) (simp add: digit_value_def)
    qed
    ultimately show ?thesis by simp
  next
    case False
    with 1 obtain c cs where "digits (n div 10) = c # cs" and "c \<noteq> CHR ''-''" by auto
    with False show ?thesis by (subst digits.simps) simp
  qed
qed

lemma decimal_value_number_toString: "decimal_value (number_toString n) = n"
proof (cases "n < 0")
  case True
  then show ?thesis by (simp add: decimal_value_def number_toString_def decimal_nat_digits)
next
  case False
  obtain c cs where d: "digits (nat n) = c # cs" and c: "c \<noteq> CHR ''-''"
    using digits_head by blast
  have "decimal_nat (digits (nat n)) = n" using False by (simp add: decimal_nat_digits)
  with False d c show ?thesis by (simp add: decimal_value_def number_toString_def)
qed

text \<open>
  What \<open>number_toString\<close> writes for the positions of the scenarios.
\<close>

lemma number_toString_examples:
  "number_toString 0 = ''0''" "number_toString 12 = ''12''" "number_toString (- 1) = ''-1''"
  by code_simp+

text \<open>
  C7. On the empty log the export is the notice alone, with no file. On a non-empty log of
  records of the declared types, with positions that are safe integers, it is one file
  whose text is the document of the export contract: the header, then the rows in log
  order. A brand \<^verbatim>\<open>Ac"me\<close> is written with its quote doubled, and the text of a
  position reads back as that position, whatever its sign.
\<close>

theorem downloadCSV_export:
  "downloadCSV [] = Inr [Alert ''No results to download'']
   \<and> (log \<noteq> [] \<and> (\<forall>r \<in> set log. safe_integer (rec_position r)) \<longrightarrow>
        downloadCSV (map to_Result log)
          = Inr [Download ''brand-mention-results.csv'' ''text/csv;charset=utf-8;''
                   (exportCSV log)])
   \<and> quoted [CHR ''A'', CHR ''c'', CHR 0x22, CHR ''m'', CHR ''e'']
       = [CHR 0x22, CHR ''A'', CHR ''c'', CHR 0x22, CHR 0x22, CHR ''m'', CHR ''e'', CHR 0x22]
   \<and> decimal_value (number_toString n) = n"
proof (intro conjI impI)
  show "downloadCSV [] = Inr [Alert ''No results to download'']"
    by (simp add: downloadCSV_def)
next
  assume "log \<noteq> [] \<and> (\<forall>r \<in> set log. safe_integer (rec_position r))"
  then show "downloadCSV (map to_Result log)
          = Inr [Download ''brand-mention-results.csv'' ''text/csv;charset=utf-8;''
                   (exportCSV log)]"
    by (simp add: downloadCSV_def map_rows_typed join_lines exportCSV_def comp_def)
next
  show "quoted [CHR ''A'', CHR ''c'', CHR 0x22, CHR ''m'', CHR ''e'']
       = [CHR 0x22, CHR ''A'', CHR ''c'', CHR 0x22, CHR 0x22, CHR ''m'', CHR ''e'', CHR 0x22]"
    by (simp add: quoted_def dquote_def)
next
  show "decimal_value (number_toString n) = n" by (rule decimal_value_number_toString)
qed

text \<open>The log of three records: positions 0, 12 and -1.\<close>

theorem downloadCSV_export_witness:
  "downloadCSV [] = Inr [Alert ''No results to download'']
   \<and> downloadCSV (map to_Result scenario_log)
       = Inr [Download ''brand-mention-results.csv'' ''text/csv;charset=utf-8;''
           (''Prompt,Brand,Mentioned,Position'' @
            [CHR 0x0A, CHR 0x22] @ ''p'' @ [CHR 0x22] @ '','' @
              [CHR 0x22] @ ''Ac'' @ [CHR 0x22, CHR 0x22] @ ''me'' @ [CHR 0x22] @ '',No,0'' @
            [CHR 0x0A, CHR 0x22] @ ''Best CRM?'' @ [CHR 0x22] @ '','' @
              [CHR 0x22] @ ''Acme'' @ [CHR 0x22] @ '',Yes,12'' @
            [CHR 0x0A, CHR 0x22] @ ''q'' @ [CHR 0x22] @ '','' @
              [CHR 0x22] @ ''b'' @ [CHR 0x22] @ '',No,-1'')]
   \<and> decimal_value (number_toString (- 1)) = - 1"
  using downloadCSV_export [of scenario_log "- 1"]
  by (simp add: scenario_log_def safe_integer_def exportCSV_def export_row_def quoted_def
      dquote_def number_toString_examples)

subsection \<open>The log only grows\<close>

lemma handleSubmit_results:
  "results (fst (handleSubmit env s outcome)) = results s
   \<or> (\<exists>r. results (fst (handleSubmit env s outcome)) = results s @ [r])"
  by (cases outcome)
     (auto simp: handleSubmit_def on_data_def Let_def split: sum.splits option.splits if_splits)

lemma step_results:
  "results (fst (step env s ev)) = results s
   \<or> (\<exists>r. results (fst (step env s ev)) = results s @ [r])"
  by (cases ev) (simp_all add: handleSubmit_results)

lemma run_prefix: "prefix (results s) (results (run env s evs))"
proof (induction evs arbitrary: s)
  case Nil
  show ?case by simp
next
  case (Cons ev evs)
  have "prefix (results s) (results (fst (step env s ev)))"
    using step_results [of env s ev] by auto
  also have "prefix (results (fst (step env s ev))) (results (run env (fst (step env s ev)) evs))"
    by (rule Cons.IH)
  finally show ?case by simp
qed

text \<open>
  C8. Every operation (an edit of the draft, a submission with any outcome, an export)
  leaves the log as it is or appends one record at its end; so after any sequence of
  operations the log starts with the log it had before: no record is changed, removed or
  moved.
\<close>

theorem results_append_only:
  "(results (fst (step env s ev)) = results s
      \<or> (\<exists>r. results (fst (step env s ev)) = results s @ [r]))
   \<and> prefix (results s) (results (run env s evs))"
  using step_results run_prefix by blast

text \<open>The session of nine operations, started from the draft of the scenarios.\<close>

theorem results_append_only_witness:
  "results (run None scenario_state session)
     = [\<lparr>prompt = JStr ''Best CRM?'', brand = JStr ''Acme'', mentioned = JBool True,
         position = JNum 3, raw = JUndefined, error = JUndefined\<rparr>,
        \<lparr>prompt = JStr ''p'', brand = JStr ''b'', mentioned = JBool False,
         position = JNum 0, raw = JStr ''API_ERROR'',
         error = JStr ''API Error: Service temporarily unavailable''\<rparr>]
   \<and> prefix (results scenario_state) (results (run None scenario_state session))
   \<and> (results (fst (step None scenario_state DownloadCSV)) = results scenario_state
        \<or> (\<exists>r. results (fst (step None scenario_state DownloadCSV))
               = results scenario_state @ [r]))"
  using results_append_only [of None scenario_state DownloadCSV session]
  by (simp add: session_def scenario_state_def handleSubmit_def on_data_def new_result_def
      js_or_def api_error_message_def Let_def trim_eq_Nil is_white_space_def)

subsection \<open>Bodies of any shape\<close>

lemma csv_row_TypeError:
  assumes "\<not> is_string (prompt r) \<or> \<not> is_string (brand r) \<or> nullish (position r)"
  shows "csv_row r = Inl TypeError"
proof (cases "is_string (prompt r)")
  case False
  then show ?thesis by (cases "prompt r") (simp_all add: csv_row_def)
next
  case p: True
  then obtain ps where ps: "prompt r = JStr ps" by (cases "prompt r") simp_all
  show ?thesis
  proof (cases "is_string (brand r)")
    case False
    then show ?thesis using ps by (cases "brand r") (simp_all add: csv_row_def)
  next
    case True
    then obtain bs where bs: "brand r = JStr bs" by (cases "brand r") simp_all
    from assms p True have "nullish (position r)" by simp
    then show ?thesis using ps bs by (simp add: csv_row_def call_toString_def)
  qed
qed

lemma and_then_Inl:
  "and_then m f = Inl e \<longleftrightarrow> m = Inl e \<or> (\<exists>x. m = Inr x \<and> f x = Inl e)"
  by (cases m) simp_all

lemma ToString_error:
  "ToString v = Inl e \<Longrightarrow> e = TypeError"
  "join_elements vs = Inl e \<Longrightarrow> e = TypeError"
  "element_text v = Inl e \<Longrightarrow> e = TypeError"
proof (induction v and vs and v rule: ToString_join_elements_element_text.induct)
  case (10 x y ys)
  then show ?case by (auto simp: and_then_Inl)
qed (auto split: if_splits)

lemma csv_row_error: "csv_row r = Inl e \<Longrightarrow> e = TypeError"
proof -
  assume a: "csv_row r = Inl e"
  have "call_replace v = Inl e \<Longrightarrow> e = TypeError" for v by (cases v) simp_all
  moreover have "call_toString v = Inl e \<Longrightarrow> e = TypeError" for v
    by (auto simp: call_toString_def split: if_splits dest: ToString_error(1))
  ultimately show ?thesis using a by (auto simp: csv_row_def and_then_Inl)
qed

lemma map_rows_error: "map_rows log = Inl e \<Longrightarrow> e = TypeError"
  by (induction log arbitrary: e) (auto simp: and_then_Inl dest: csv_row_error)

lemma map_rows_TypeError:
  assumes "r \<in> set log" and "csv_row r = Inl TypeError"
  shows "map_rows log = Inl TypeError"
  using assms
proof (induction log)
  case Nil
  then show ?case by simp
next
  case (Cons x xs)
  show ?case
  proof (cases "csv_row x")
    case (Inl e)
    then show ?thesis using csv_row_error [OF Inl] by simp
  next
    case (Inr row)
    with Cons have "map_rows xs = Inl TypeError" by auto
    with Inr show ?thesis by simp
  qed
qed

lemma csv_row_total:
  assumes "is_string (prompt r)" and "is_string (brand r)" and "is_number (position r)"
  shows "\<exists>row. csv_row r = Inr row"
proof -
  from assms obtain p b n where "prompt r = JStr p" "brand r = JStr b" "position r = JNum n"
    by (cases "prompt r"; cases "brand r"; cases "position r") simp_all
  then show ?thesis by (simp add: csv_row_def call_toString_def)
qed

lemma map_rows_total:
  assumes "\<forall>r \<in> set log. is_string (prompt r) \<and> is_string (brand r) \<and> is_number (position r)"
  shows "\<exists>rows. map_rows log = Inr rows"
  using assms
proof (induction log)
  case Nil
  show ?case by simp
next
  case (Cons x xs)
  then obtain row rows where "csv_row x = Inr row" "map_rows xs = Inr rows"
    using csv_row_total [of x] by auto
  then show ?case by simp
qed

text \<open>
  C10, as the code has it. A body other than \<^verbatim>\<open>null\<close> with no truthy
  \<^verbatim>\<open>error\<close> and no sentinel is appended as it is: the four fields are those of the
  body, \<^verbatim>\<open>undefined\<close> when missing, as for the empty object. The export returns when
  every record holds a string prompt, a string brand and a number position, and throws a
  TypeError when some record holds a prompt or brand that is not a string, or a position
  that is \<^verbatim>\<open>undefined\<close> or \<^verbatim>\<open>null\<close>.
\<close>

theorem unvalidated_append:
  "(trim (prompt_st s) \<noteq> [] \<and> trim (brand_st s) \<noteq> [] \<and> \<not> nullish data
      \<and> \<not> truthy (field data ''error'') \<and> field data ''raw'' \<noteq> JStr ''API_ERROR'' \<longrightarrow>
        results (fst (handleSubmit env s (Resolves \<lparr>status = st, json = Some data\<rparr>)))
          = results s @ [new_result data]
        \<and> prompt (new_result data) = field data ''prompt''
        \<and> brand (new_result data) = field data ''brand''
        \<and> mentioned (new_result data) = field data ''mentioned''
        \<and> position (new_result data) = field data ''position'')
   \<and> (trim (prompt_st s) \<noteq> [] \<and> trim (brand_st s) \<noteq> [] \<longrightarrow>
        results (fst (handleSubmit env s (Resolves \<lparr>status = st, json = Some (JObj [])\<rparr>)))
          = results s @ [\<lparr>prompt = JUndefined, brand = JUndefined, mentioned = JUndefined,
                            position = JUndefined, raw = JUndefined, error = JUndefined\<rparr>])
   \<and> ((\<forall>r \<in> set log. is_string (prompt r) \<and> is_string (brand r) \<and> is_number (position r)) \<longrightarrow>
        (\<exists>effects. downloadCSV log = Inr effects))
   \<and> ((\<exists>r \<in> set log. \<not> is_string (prompt r) \<or> \<not> is_string (brand r) \<or> nullish (position r))
        \<longrightarrow> downloadCSV log = Inl TypeError)"
proof (intro conjI impI)
  assume a: "trim (prompt_st s) \<noteq> [] \<and> trim (brand_st s) \<noteq> [] \<and> \<not> nullish data
      \<and> \<not> truthy (field data ''error'') \<and> field data ''raw'' \<noteq> JStr ''API_ERROR''"
  then show "results (fst (handleSubmit env s (Resolves \<lparr>status = st, json = Some data\<rparr>)))
          = results s @ [new_result data]"
    by (simp add: handleSubmit_data [OF _ _ _ on_data_append])
  show "prompt (new_result data) = field data ''prompt''"
    and "brand (new_result data) = field data ''brand''"
    and "mentioned (new_result data) = field data ''mentioned''"
    and "position (new_result data) = field data ''position''"
    by (simp_all add: new_result_def)
next
  assume "trim (prompt_st s) \<noteq> [] \<and> trim (brand_st s) \<noteq> []"
  then have "results (fst (handleSubmit env s (Resolves \<lparr>status = st, json = Some (JObj [])\<rparr>)))
          = results s @ [new_result (JObj [])]"
    by (simp add: handleSubmit_data [OF _ _ _ on_data_append])
  then show "results (fst (handleSubmit env s (Resolves \<lparr>status = st, json = Some (JObj [])\<rparr>)))
          = results s @ [\<lparr>prompt = JUndefined, brand = JUndefined, mentioned = JUndefined,
                            position = JUndefined, raw = JUndefined, error = JUndefined\<rparr>]"
    by (simp add: new_result_def js_or_def)
next
  assume "\<forall>r \<in> set log. is_string (prompt r) \<and> is_string (brand r) \<and> is_number (position r)"
  then obtain rows where "map_rows log = Inr rows" using map_rows_total by blast
  then show "\<exists>effects. downloadCSV log = Inr effects" by (simp add: downloadCSV_def)
next
  assume "\<exists>r \<in> set log. \<not> is_string (prompt r) \<or> \<not> is_string (brand r) \<or> nullish (position r)"
  then obtain r where r: "r \<in> set log"
    and "\<not> is_string (prompt r) \<or> \<not> is_string (brand r) \<or> nullish (position r)" by blast
  then have "csv_row r = Inl TypeError" by (simp add: csv_row_TypeError)
  with r have "map_rows log = Inl TypeError" by (rule map_rows_TypeError)
  moreover from r have "log \<noteq> []" by auto
  ultimately show "downloadCSV log = Inl TypeError" by (simp add: downloadCSV_def)
qed

text \<open>An array as body, the empty object, the typed log and the log of the empty object.\<close>

theorem unvalidated_append_witness:
  "results (fst (handleSubmit None scenario_state
      (Resolves \<lparr>status = 200, json = Some (JArr [JNum 1, JNum 2])\<rparr>)))
     = [\<lparr>prompt = JUndefined, brand = JUndefined, mentioned = JUndefined,
         position = JUndefined, raw = JUndefined, error = JUndefined\<rparr>]
   \<and> results (fst (handleSubmit None scenario_state
      (Resolves \<lparr>status = 200, json = Some (JObj [])\<rparr>)))
     = [\<lparr>prompt = JUndefined, brand = JUndefined, mentioned = JUndefined,
         position = JUndefined, raw = JUndefined, error = JUndefined\<rparr>]
   \<and> (\<exists>effects. downloadCSV (map to_Result scenario_log) = Inr effects)
   \<and> downloadCSV [\<lparr>prompt = JUndefined, brand = JUndefined, mentioned = JUndefined,
         position = JUndefined, raw = JUndefined, error = JUndefined\<rparr>] = Inl TypeError"
  using unvalidated_append [of scenario_state "JArr [JNum 1, JNum 2]" None 200
      "map to_Result scenario_log"]
    unvalidated_append [of scenario_state "JObj []" None 200
      "[\<lparr>prompt = JUndefined, brand = JUndefined, mentioned = JUndefined,
         position = JUndefined, raw = JUndefined, error = JUndefined\<rparr>]"]
    scenario_state_valid
  by (simp add: scenario_state_def scenario_log_def to_Result_def new_result_def js_or_def)

text \<open>
  C10 as stated fails on the body \<^verbatim>\<open>null\<close>: its \<^verbatim>\<open>error\<close> is absent and its
  \<^verbatim>\<open>raw\<close> is not the sentinel, yet no record is appended; the attempt ends with the
  connectivity message.
\<close>

theorem null_body_recorded_counterexample:
  "\<not> truthy (field JNull ''error'') \<and> field JNull ''raw'' \<noteq> JStr ''API_ERROR''
   \<and> results (fst (handleSubmit None scenario_state
        (Resolves \<lparr>status = 200, json = Some JNull\<rparr>))) = results scenario_state
   \<and> error_st (fst (handleSubmit None scenario_state
        (Resolves \<lparr>status = 200, json = Some JNull\<rparr>)))
       = JStr ''Failed to connect to backend. Please check if the server is running.''
   \<and> prompt_st (fst (handleSubmit None scenario_state
        (Resolves \<lparr>status = 200, json = Some JNull\<rparr>))) = ''Best CRM?''
   \<and> brand_st (fst (handleSubmit None scenario_state
        (Resolves \<lparr>status = 200, json = Some JNull\<rparr>))) = ''Acme''"
  by (simp add: scenario_state_def handleSubmit_def on_data_def connect_message_def Let_def
      trim_eq_Nil is_white_space_def)

end
